theory Spec2Isabelle
  imports Complex_Main "HOL-Library.Word"
begin

section \<open>Belt tracking: data model\<close>

text \<open>
  A shallow embedding of \<^verbatim>\<open>apps/belt/tracking/tracking.py\<close>. The class
  \<^verbatim>\<open>BeltTracking\<close> is a record of its attributes and every method is a function
  from the state (and what the method reads from its environment) to its result and the
  state after the call.

  Python floats are modelled as \<^typ>\<open>real\<close>: the program compares floats and
  subtracts time stamps, and the only operation whose result can leave the finite
  numbers, the division that computes the confidence, returns an \<open>npfloat\<close>.
  Rounding is not modelled.
\<close>

datatype MovementType = NONE | RUNNING | FALL | WALKING

fun mt_value :: "MovementType \<Rightarrow> string" where
  "mt_value NONE = ''none''"
| "mt_value RUNNING = ''running''"
| "mt_value FALL = ''fall''"
| "mt_value WALKING = ''walking''"

record CameraSettings =
  timer_interval :: real
  movement_threshold :: real
  fall_threshold :: real
  running_threshold :: real
  save_directory :: string
  resolution :: "int \<times> int"
  fps :: int

definition default_settings :: CameraSettings where
  "default_settings =
     \<lparr>timer_interval = 60, movement_threshold = 30, fall_threshold = 50,
      running_threshold = 40, save_directory = ''captures'',
      resolution = (640, 480), fps = 30\<rparr>"

subsection \<open>Numbers that numpy's division returns\<close>

text \<open>
  \<^verbatim>\<open>np.mean\<close> returns a \<^verbatim>\<open>numpy.float64\<close>, and dividing one by the Python
  float \<^verbatim>\<open>0.0\<close> raises nothing: the quotient is an infinity, or not a number when
  the dividend is zero too. \<^verbatim>\<open>min(a, b)\<close> returns \<^verbatim>\<open>b\<close> when
  \<^verbatim>\<open>b < a\<close> and \<^verbatim>\<open>a\<close> otherwise, and every comparison with not-a-number is
  false.
\<close>

datatype npfloat = Finite real | PosInf | NegInf | NaN

definition np_truediv :: "real \<Rightarrow> real \<Rightarrow> npfloat" where
  "np_truediv a b =
     (if b = 0 then (if 0 < a then PosInf else if a < 0 then NegInf else NaN)
      else Finite (a / b))"

fun np_less :: "npfloat \<Rightarrow> npfloat \<Rightarrow> bool" where
  "np_less (Finite a) (Finite b) = (a < b)"
| "np_less NaN _ = False"
| "np_less _ NaN = False"
| "np_less _ NegInf = False"
| "np_less NegInf _ = True"
| "np_less PosInf _ = False"
| "np_less (Finite a) PosInf = True"

definition py_min :: "npfloat \<Rightarrow> npfloat \<Rightarrow> npfloat" where
  "py_min a b = (if np_less b a then b else a)"

subsection \<open>The image library\<close>

text \<open>
  OpenCV and numpy are not part of the repository. The three calls the detector makes
  are parameters of the model: the conversion of a camera frame to a single-channel
  image, the per-pixel absolute difference of two such images, which raises
  \<^verbatim>\<open>cv2.error\<close> on images of different shapes, and the mean of an image. The
  mean is a finite number: the frames a camera delivers have pixels, and the mean of
  their bytes is neither infinite nor not-a-number.
\<close>

datatype cv_error = CvError string

record ('f, 'g) cvlib =
  cvtColor_BGR2GRAY :: "'f \<Rightarrow> cv_error + 'g"
  absdiff :: "'g \<Rightarrow> 'g \<Rightarrow> cv_error + 'g"
  mean :: "'g \<Rightarrow> real"

text \<open>
  One instance, for evaluating the model on concrete frames: a frame is a list of
  (blue, green, red) bytes, a single-channel image a list of bytes, the luminance is the
  weighted sum \<open>0.114 B + 0.587 G + 0.299 R\<close> in 14-bit fixed point, and no image
  is empty.
\<close>

type_synonym bgr_frame = "(8 word \<times> 8 word \<times> 8 word) list"
type_synonym gray_image = "8 word list"

fun luma :: "8 word \<times> 8 word \<times> 8 word \<Rightarrow> 8 word" where
  "luma (b, g, r) =
     of_nat ((1868 * unat b + 9617 * unat g + 4899 * unat r + 8192) div 16384)"

definition bgr2gray :: "bgr_frame \<Rightarrow> cv_error + gray_image" where
  "bgr2gray frame =
     (if frame = [] then Inl (CvError ''empty image'') else Inr (map luma frame))"

definition absdiff_u8 :: "gray_image \<Rightarrow> gray_image \<Rightarrow> cv_error + gray_image" where
  "absdiff_u8 a b =
     (if length a = length b
      then Inr (map (\<lambda>(x, y). if x \<le> y then y - x else x - y) (zip a b))
      else Inl (CvError ''sizes of input arguments do not match''))"

definition mean_u8 :: "gray_image \<Rightarrow> real" where
  "mean_u8 img = real (sum_list (map unat img)) / real (length img)"

definition cv_u8 :: "(bgr_frame, gray_image) cvlib" where
  "cv_u8 = \<lparr>cvtColor_BGR2GRAY = bgr2gray, absdiff = absdiff_u8, mean = mean_u8\<rparr>"

subsection \<open>The tracker's state and the dictionaries it returns\<close>

text \<open>
  The attributes of \<^verbatim>\<open>BeltTracking\<close>, without their leading underscore. The
  handle of the timer thread is left out: nothing reads it. A dictionary with a fixed
  set of keys is a record or a datatype with one constructor for each shape the code
  returns; a key that one return has and another lacks is an \<open>option\<close>.
\<close>

record movement_data =
  mtype :: string
  confidence :: npfloat
  movement_value :: "real option"

record ('c, 'g) BeltTracking =
  last_open_time :: "real option"
  last_close_time :: "real option"
  is_open :: bool
  open_duration :: real
  total_opens :: int
  camera_settings :: CameraSettings
  camera :: "'c option"
  is_capturing :: bool
  last_frame :: "'g option"
  movement_history :: "movement_data list"
  capture_count :: int

definition init :: "CameraSettings option \<Rightarrow> ('c, 'g) BeltTracking" where
  "init cs =
     \<lparr>last_open_time = None, last_close_time = None, is_open = False,
      open_duration = 0, total_opens = 0,
      camera_settings = (case cs of None \<Rightarrow> default_settings | Some c \<Rightarrow> c),
      camera = None, is_capturing = False, last_frame = None,
      movement_history = [], capture_count = 0\<rparr>"

datatype capture_result =
    CaptureError (cr_message: string)
  | CaptureSuccess (cr_filename: string) (cr_movement: movement_data)
      (cr_trigger: string) (cr_timestamp: string)

fun cr_status :: "capture_result \<Rightarrow> string" where
  "cr_status (CaptureError _) = ''error''"
| "cr_status (CaptureSuccess _ _ _ _) = ''success''"

record camera_stats =
  cs_is_capturing :: bool
  cs_capture_count :: int
  cs_settings :: CameraSettings
  recent_movements :: "movement_data list"

record open_data =
  od_timestamp :: real
  od_action :: string
  od_total_opens :: int
  od_is_open :: bool

datatype close_data =
    CloseError (cd_timestamp: real) (cd_action: string) (cd_error: string)
  | CloseData (cd_timestamp: real) (cd_action: string) (cd_duration: real)
      (cd_is_open: bool)

record tracking_stats =
  ts_is_open :: bool
  ts_last_open_time :: "real option"
  ts_last_close_time :: "real option"
  ts_total_opens :: int
  current_open_duration :: real

section \<open>The camera: capture and movement detection\<close>

text \<open>
  \<^verbatim>\<open>_detect_movement(frame)\<close>. Without a stored frame it stores the grey image of
  \<open>frame\<close> and returns a dictionary of two keys. With one it measures the mean
  absolute difference, replaces the stored frame, classifies the measure against the
  three thresholds from the largest down, and appends the dictionary it returns to the
  history. An exception of the library leaves the state as it was: both raising calls
  come before the first assignment.
\<close>

definition detect_movement ::
  "('f, 'g) cvlib \<Rightarrow> 'f \<Rightarrow> ('c, 'g) BeltTracking
     \<Rightarrow> cv_error + (movement_data \<times> ('c, 'g) BeltTracking)" where
  "detect_movement cv frame s =
     (case last_frame s of
        None \<Rightarrow>
          (case cvtColor_BGR2GRAY cv frame of
             Inl e \<Rightarrow> Inl e
           | Inr gray \<Rightarrow>
               Inr (\<lparr>mtype = mt_value NONE, confidence = Finite 0, movement_value = None\<rparr>,
                    s\<lparr>last_frame := Some gray\<rparr>))
      | Some prev \<Rightarrow>
          (case cvtColor_BGR2GRAY cv frame of
             Inl e \<Rightarrow> Inl e
           | Inr gray \<Rightarrow>
               (case absdiff cv prev gray of
                  Inl e \<Rightarrow> Inl e
                | Inr frame_diff \<Rightarrow>
                    (let movement = mean cv frame_diff;
                         s1 = s\<lparr>last_frame := Some gray\<rparr>;
                         st = camera_settings s1;
                         conf = py_min (np_truediv movement (movement_threshold st)) (Finite 1);
                         movement_type =
                           (if movement > fall_threshold st then FALL
                            else if movement > running_threshold st then RUNNING
                            else if movement > movement_threshold st then WALKING
                            else NONE);
                         md = \<lparr>mtype = mt_value movement_type, confidence = conf,
                               movement_value = Some movement\<rparr>
                     in Inr (md, s1\<lparr>movement_history := movement_history s1 @ [md]\<rparr>)))))"

text \<open>
  \<^verbatim>\<open>capture_image(trigger)\<close>. \<open>rd\<close> is what \<^verbatim>\<open>self._camera.read()\<close>
  returns when the call is reached (\<open>None\<close> when its flag is false, the frame
  otherwise) and \<open>ts\<close> the formatted time of the capture. Writing the image file
  changes nothing the tracker holds.
\<close>

definition capture_image ::
  "('f, 'g) cvlib \<Rightarrow> 'f option \<Rightarrow> string \<Rightarrow> string \<Rightarrow> ('c, 'g) BeltTracking
     \<Rightarrow> cv_error + (capture_result \<times> ('c, 'g) BeltTracking)" where
  "capture_image cv rd ts trigger s =
     (if camera s = None \<or> \<not> is_capturing s
      then Inr (CaptureError ''Camera not initialized or not capturing'', s)
      else
        (case rd of
           None \<Rightarrow> Inr (CaptureError ''Failed to capture frame'', s)
         | Some frame \<Rightarrow>
             (case detect_movement cv frame s of
                Inl e \<Rightarrow> Inl e
              | Inr (md, s1) \<Rightarrow>
                  (let filename =
                         save_directory (camera_settings s1) @ ''/capture_'' @ ts @ ''_''
                           @ trigger @ ''.jpg''
                   in Inr (CaptureSuccess filename md trigger ts,
                           s1\<lparr>capture_count := capture_count s1 + 1\<rparr>)))))"

text \<open>
  \<^verbatim>\<open>get_camera_stats()\<close>: the slice \<^verbatim>\<open>history[-10:]\<close> is the last ten entries,
  or all of them when there are fewer.
\<close>

definition get_camera_stats :: "('c, 'g) BeltTracking \<Rightarrow> camera_stats" where
  "get_camera_stats s =
     \<lparr>cs_is_capturing = is_capturing s,
      cs_capture_count = capture_count s,
      cs_settings = camera_settings s,
      recent_movements =
        (if movement_history s \<noteq> []
         then drop (length (movement_history s) - 10) (movement_history s)
         else [])\<rparr>"

text \<open>A run of captures whose frame pulls all succeed, one (frame, time, trigger) each.\<close>

fun capture_all ::
  "('f, 'g) cvlib \<Rightarrow> ('f \<times> string \<times> string) list \<Rightarrow> ('c, 'g) BeltTracking
     \<Rightarrow> cv_error + ('c, 'g) BeltTracking" where
  "capture_all cv [] s = Inr s"
| "capture_all cv ((frame, ts, trigger) # rest) s =
     (case capture_image cv (Some frame) ts trigger s of
        Inl e \<Rightarrow> Inl e
      | Inr (r, s') \<Rightarrow> capture_all cv rest s')"

section \<open>The belt: open, close, statistics\<close>

text \<open>Each function takes \<open>now\<close>, the reading of \<^verbatim>\<open>time.time()\<close> it makes.\<close>

definition track_belt_open ::
  "real \<Rightarrow> ('c, 'g) BeltTracking \<Rightarrow> open_data \<times> ('c, 'g) BeltTracking" where
  "track_belt_open now s =
     (let s' = s\<lparr>last_open_time := Some now, is_open := True,
                 total_opens := total_opens s + 1\<rparr>
      in (\<lparr>od_timestamp = now, od_action = ''open'', od_total_opens = total_opens s',
           od_is_open = is_open s'\<rparr>, s'))"

definition track_belt_close ::
  "real \<Rightarrow> ('c, 'g) BeltTracking \<Rightarrow> close_data \<times> ('c, 'g) BeltTracking" where
  "track_belt_close now s =
     (if \<not> is_open s then (CloseError now ''close'' ''Belt was not open'', s)
      else
        (let s1 = s\<lparr>last_close_time := Some now, is_open := False\<rparr>;
             s2 = (case last_open_time s1 of
                     None \<Rightarrow> s1
                   | Some t \<Rightarrow> s1\<lparr>open_duration := now - t\<rparr>)
         in (CloseData now ''close'' (open_duration s2) (is_open s2), s2)))"

text \<open>
  \<^verbatim>\<open>get_tracking_stats()\<close>: the condition \<^verbatim>\<open>self._is_open and self._last_open_time\<close>
  tests the time for truth, so that an absent time and the time \<open>0.0\<close> both fail it.
\<close>

definition get_tracking_stats :: "real \<Rightarrow> ('c, 'g) BeltTracking \<Rightarrow> tracking_stats" where
  "get_tracking_stats now s =
     \<lparr>ts_is_open = is_open s,
      ts_last_open_time = last_open_time s,
      ts_last_close_time = last_close_time s,
      ts_total_opens = total_opens s,
      current_open_duration =
        (case last_open_time s of
           None \<Rightarrow> 0
         | Some t \<Rightarrow> if is_open s \<and> t \<noteq> 0 then now - t else 0)\<rparr>"

section \<open>States and frames for concrete evaluation\<close>

text \<open>
  The tracker as \<^verbatim>\<open>BeltTracking()\<close> builds it, once the camera has been started;
  the same tracker after the belt was opened at time 3 and closed at time 7; and a frame
  of two pixels of one grey level.
\<close>

definition started :: "(unit, gray_image) BeltTracking" where
  "started = (init None)\<lparr>camera := Some (), is_capturing := True\<rparr>"

definition closed_after_use :: "(unit, gray_image) BeltTracking" where
  "closed_after_use = snd (track_belt_close 7 (snd (track_belt_open 3 (init None))))"

definition flat :: "8 word \<Rightarrow> bgr_frame" where
  "flat v = [(v, v, v), (v, v, v)]"

text \<open>
  The started tracker after a first, all black frame has set the baseline; the dictionary
  the detector returns for a frame of grey level 45 against that baseline; and the
  tracker after the two captures.
\<close>

definition md_running :: movement_data where
  "md_running = \<lparr>mtype = ''running'', confidence = Finite 1, movement_value = Some 45\<rparr>"

definition calibrated :: "(unit, gray_image) BeltTracking" where
  "calibrated = started\<lparr>last_frame := Some [0, 0]\<rparr>"

definition observed :: "(unit, gray_image) BeltTracking" where
  "observed = started\<lparr>last_frame := Some [45, 45], movement_history := [md_running],
                       capture_count := 2\<rparr>"

text \<open>
  Twelve timer captures of frames that differ from one to the next by 1, 2, ... 11 grey
  levels; the dictionary of a detection of magnitude \<open>m\<close> below the default movement
  threshold; and the tracker after the twelve captures.
\<close>

definition twelve_captures :: "(bgr_frame \<times> string \<times> string) list" where
  "twelve_captures =
     [(flat 0, ''20240101_120000'', ''timer''), (flat 1, ''20240101_120100'', ''timer''),
      (flat 3, ''20240101_120200'', ''timer''), (flat 6, ''20240101_120300'', ''timer''),
      (flat 10, ''20240101_120400'', ''timer''), (flat 15, ''20240101_120500'', ''timer''),
      (flat 21, ''20240101_120600'', ''timer''), (flat 28, ''20240101_120700'', ''timer''),
      (flat 36, ''20240101_120800'', ''timer''), (flat 45, ''20240101_120900'', ''timer''),
      (flat 55, ''20240101_121000'', ''timer''), (flat 66, ''20240101_121100'', ''timer'')]"

definition reading :: "real \<Rightarrow> movement_data" where
  "reading m = \<lparr>mtype = ''none'', confidence = Finite (m / 30), movement_value = Some m\<rparr>"

definition after_twelve :: "(unit, gray_image) BeltTracking" where
  "after_twelve =
     started\<lparr>last_frame := Some [66, 66],
       movement_history :=
         [reading 1, reading 2, reading 3, reading 4, reading 5, reading 6, reading 7,
          reading 8, reading 9, reading 10, reading 11],
       capture_count := 12\<rparr>"

section \<open>The belt tracker\<close>

lemma closed_after_use_eq:
  "closed_after_use =
     (init None)\<lparr>last_open_time := Some 3, last_close_time := Some 7,
                 open_duration := 4, total_opens := 1\<rparr>"
  by (simp add: closed_after_use_def track_belt_close_def track_belt_open_def init_def Let_def)

text \<open>
  C6. Closing a belt that is not open returns the dictionary with the error
  \<^verbatim>\<open>"Belt was not open"\<close> and leaves every attribute of the tracker as it was,
  in every state whose \<open>is_open\<close> is false.
\<close>

theorem close_not_open_reports_error:
  "\<not> is_open s \<Longrightarrow>
     track_belt_close now s = (CloseError now ''close'' ''Belt was not open'', s)"
  by (simp add: track_belt_close_def)

theorem close_not_open_reports_error_witness:
  "\<not> is_open closed_after_use \<and>
   total_opens closed_after_use = 1 \<and>
   track_belt_close 9 closed_after_use =
     (CloseError 9 ''close'' ''Belt was not open'', closed_after_use)"
proof -
  have h: "\<not> is_open closed_after_use"
    by (simp add: closed_after_use_eq init_def)
  show ?thesis
    using h close_not_open_reports_error [OF h, of 9]
    by (simp add: closed_after_use_eq init_def)
qed

text \<open>
  C7. From any state, an open at \<open>t1\<close> followed by a close at \<open>t2\<close> reports the
  duration \<open>t2 - t1\<close>, and a second open at \<open>t3\<close> and close at \<open>t4\<close> after
  them reports \<open>t4 - t3\<close>, whatever the first pair was.
\<close>

theorem open_close_reports_duration:
  "fst (track_belt_close t2 (snd (track_belt_open t1 s))) =
     CloseData t2 ''close'' (t2 - t1) False \<and>
   fst (track_belt_close t4 (snd (track_belt_open t3
          (snd (track_belt_close t2 (snd (track_belt_open t1 s))))))) =
     CloseData t4 ''close'' (t4 - t3) False"
  by (simp add: track_belt_close_def track_belt_open_def Let_def)

theorem open_close_reports_duration_witness:
  "fst (track_belt_close 7 (snd (track_belt_open 3
          (init None :: (unit, gray_image) BeltTracking)))) =
     CloseData 7 ''close'' 4 False \<and>
   fst (track_belt_close 25 (snd (track_belt_open 10
          (snd (track_belt_close 7 (snd (track_belt_open 3
             (init None :: (unit, gray_image) BeltTracking)))))))) =
     CloseData 25 ''close'' 15 False"
  using open_close_reports_duration
    [where ?t1.0 = 3 and ?t2.0 = 7 and ?t3.0 = 10 and ?t4.0 = 25
       and s = "init None :: (unit, gray_image) BeltTracking"]
  by simp

text \<open>
  C10. While the belt is not open the statistics report a current open duration of
  zero, whatever duration the last close stored; a duration other than zero is reported
  only while the belt is open.
\<close>

theorem closed_belt_reports_zero_duration:
  "(\<not> is_open s \<longrightarrow> current_open_duration (get_tracking_stats now s) = 0) \<and>
   (current_open_duration (get_tracking_stats now s) \<noteq> 0 \<longrightarrow> is_open s)"
  by (simp add: get_tracking_stats_def split: option.splits)

theorem closed_belt_reports_zero_duration_witness:
  "\<not> is_open closed_after_use \<and> open_duration closed_after_use = 4 \<and>
   current_open_duration (get_tracking_stats 9 closed_after_use) = 0 \<and>
   current_open_duration (get_tracking_stats 9 (snd (track_belt_open 3
      (init None :: (unit, gray_image) BeltTracking)))) = 6 \<and>
   is_open (snd (track_belt_open 3 (init None :: (unit, gray_image) BeltTracking)))"
  using closed_belt_reports_zero_duration [where s = closed_after_use and now = 9]
    closed_belt_reports_zero_duration
      [where now = 9
         and s = "snd (track_belt_open 3 (init None :: (unit, gray_image) BeltTracking))"]
  by (simp add: closed_after_use_eq get_tracking_stats_def track_belt_open_def init_def)

section \<open>The movement detector\<close>

subsection \<open>What one call computes\<close>

lemma detect_movement_first:
  "last_frame s = None \<Longrightarrow> cvtColor_BGR2GRAY cv frame = Inr gray \<Longrightarrow>
     detect_movement cv frame s =
       Inr (\<lparr>mtype = ''none'', confidence = Finite 0, movement_value = None\<rparr>,
            s\<lparr>last_frame := Some gray\<rparr>)"
  by (simp add: detect_movement_def)

lemma detect_movement_next:
  assumes "last_frame s = Some prev" and "cvtColor_BGR2GRAY cv frame = Inr gray"
    and "absdiff cv prev gray = Inr d"
  shows "\<exists>md. detect_movement cv frame s =
              Inr (md, s\<lparr>last_frame := Some gray,
                          movement_history := movement_history s @ [md]\<rparr>) \<and>
            movement_value md = Some (mean cv d) \<and>
            confidence md =
              py_min (np_truediv (mean cv d) (movement_threshold (camera_settings s)))
                (Finite 1) \<and>
            mtype md =
              mt_value
                (if mean cv d > fall_threshold (camera_settings s) then FALL
                 else if mean cv d > running_threshold (camera_settings s) then RUNNING
                 else if mean cv d > movement_threshold (camera_settings s) then WALKING
                 else NONE)"
  using assms by (simp add: detect_movement_def Let_def)

lemma confidence_positive_threshold:
  "0 < thr \<Longrightarrow> py_min (np_truediv m thr) (Finite 1) = Finite (min (m / thr) 1)"
  by (simp add: py_min_def np_truediv_def min_def)

subsection \<open>The model on the concrete frames\<close>

lemma started_simps:
  "last_frame started = None" "camera started = Some ()" "is_capturing started"
  "camera_settings started = default_settings" "movement_history started = []"
  by (simp_all add: started_def init_def)

lemma calibrated_simps:
  "last_frame calibrated = Some [0, 0]" "camera calibrated = Some ()" "is_capturing calibrated"
  "camera_settings calibrated = default_settings" "movement_history calibrated = []"
  by (simp_all add: calibrated_def started_def init_def)

lemma cv_u8_flat0: "cvtColor_BGR2GRAY cv_u8 (flat 0) = Inr [0, 0]"
  by (simp add: cv_u8_def bgr2gray_def flat_def)

lemma cv_u8_flat45: "cvtColor_BGR2GRAY cv_u8 (flat 45) = Inr [45, 45]"
  by (simp add: cv_u8_def bgr2gray_def flat_def)

lemma cv_u8_dim: "cvtColor_BGR2GRAY cv_u8 [(20, 20, 20), (0, 0, 0)] = Inr [20, 0]"
  by (simp add: cv_u8_def bgr2gray_def)

lemma cv_u8_diff45: "absdiff cv_u8 [0, 0] [45, 45] = Inr [45, 45]"
  by (simp add: cv_u8_def absdiff_u8_def)

lemma cv_u8_diff_dim: "absdiff cv_u8 [0, 0] [20, 0] = Inr [20, 0]"
  by (simp add: cv_u8_def absdiff_u8_def)

lemma cv_u8_mean45: "mean cv_u8 [45, 45] = 45"
  by (simp add: cv_u8_def mean_u8_def)

lemma cv_u8_mean_dim: "mean cv_u8 [20, 0] = 10"
  by (simp add: cv_u8_def mean_u8_def)

lemma default_thresholds:
  "movement_threshold default_settings = 30" "running_threshold default_settings = 40"
  "fall_threshold default_settings = 50" "save_directory default_settings = ''captures''"
  by (simp_all add: default_settings_def)

lemma detect_calibrates:
  "detect_movement cv_u8 (flat 0) started =
     Inr (\<lparr>mtype = ''none'', confidence = Finite 0, movement_value = None\<rparr>, calibrated)"
  by (simp add: detect_movement_first [OF started_simps(1) cv_u8_flat0] calibrated_def)

lemma detect_running:
  "detect_movement cv_u8 (flat 45) calibrated =
     Inr (md_running, calibrated\<lparr>last_frame := Some [45, 45], movement_history := [md_running]\<rparr>)"
  using detect_movement_next [OF calibrated_simps(1) cv_u8_flat45 cv_u8_diff45]
  by (auto simp add: calibrated_simps default_thresholds cv_u8_mean45 md_running_def
      py_min_def np_truediv_def)

subsection \<open>Classification and confidence\<close>

text \<open>
  C1. With a baseline stored and the thresholds ordered (movement \<open>\<le>\<close> running
  \<open>\<le>\<close> fall), a frame whose mean absolute difference from the baseline is \<open>m\<close>
  is classified fall exactly when \<open>m\<close> exceeds the fall threshold, running exactly
  when it exceeds the running threshold and not the fall one, walking exactly when it
  exceeds the movement threshold and not the running one, and none exactly when it does
  not exceed the movement threshold.
\<close>

theorem classification_by_thresholds:
  assumes "movement_threshold (camera_settings s) \<le> running_threshold (camera_settings s)"
    and "running_threshold (camera_settings s) \<le> fall_threshold (camera_settings s)"
    and "last_frame s = Some prev"
    and "cvtColor_BGR2GRAY cv frame = Inr gray"
    and "absdiff cv prev gray = Inr d"
    and "mean cv d = m"
  shows "\<exists>md s'. detect_movement cv frame s = Inr (md, s') \<and>
           (mtype md = ''fall'' \<longleftrightarrow> fall_threshold (camera_settings s) < m) \<and>
           (mtype md = ''running'' \<longleftrightarrow>
              running_threshold (camera_settings s) < m \<and> m \<le> fall_threshold (camera_settings s)) \<and>
           (mtype md = ''walking'' \<longleftrightarrow>
              movement_threshold (camera_settings s) < m \<and>
              m \<le> running_threshold (camera_settings s)) \<and>
           (mtype md = ''none'' \<longleftrightarrow> m \<le> movement_threshold (camera_settings s))"
proof -
  from detect_movement_next [OF assms(3) assms(4) assms(5)]
  obtain md where
    run: "detect_movement cv frame s =
            Inr (md, s\<lparr>last_frame := Some gray,
                        movement_history := movement_history s @ [md]\<rparr>)"
    and ty: "mtype md =
              mt_value
                (if mean cv d > fall_threshold (camera_settings s) then FALL
                 else if mean cv d > running_threshold (camera_settings s) then RUNNING
                 else if mean cv d > movement_threshold (camera_settings s) then WALKING
                 else NONE)"
    by blast
  from ty assms(1) assms(2) assms(6)
  have "(mtype md = ''fall'' \<longleftrightarrow> fall_threshold (camera_settings s) < m) \<and>
        (mtype md = ''running'' \<longleftrightarrow>
           running_threshold (camera_settings s) < m \<and> m \<le> fall_threshold (camera_settings s)) \<and>
        (mtype md = ''walking'' \<longleftrightarrow>
           movement_threshold (camera_settings s) < m \<and>
           m \<le> running_threshold (camera_settings s)) \<and>
        (mtype md = ''none'' \<longleftrightarrow> m \<le> movement_threshold (camera_settings s))"
    by auto
  with run show ?thesis by blast
qed

theorem classification_by_thresholds_witness:
  "movement_threshold (camera_settings calibrated) \<le> running_threshold (camera_settings calibrated) \<and>
   running_threshold (camera_settings calibrated) \<le> fall_threshold (camera_settings calibrated) \<and>
   last_frame calibrated = Some [0, 0] \<and>
   cvtColor_BGR2GRAY cv_u8 (flat 45) = Inr [45, 45] \<and>
   absdiff cv_u8 [0, 0] [45, 45] = Inr [45, 45] \<and>
   mean cv_u8 [45, 45] = 45 \<and>
   (\<exists>md s'. detect_movement cv_u8 (flat 45) calibrated = Inr (md, s') \<and>
      mtype md = ''running'')"
proof -
  have a: "movement_threshold (camera_settings calibrated) \<le> running_threshold (camera_settings calibrated)"
    and b: "running_threshold (camera_settings calibrated) \<le> fall_threshold (camera_settings calibrated)"
    by (simp_all add: calibrated_simps default_thresholds)
  from classification_by_thresholds
    [OF a b calibrated_simps(1) cv_u8_flat45 cv_u8_diff45 cv_u8_mean45]
  have "\<exists>md s'. detect_movement cv_u8 (flat 45) calibrated = Inr (md, s') \<and>
      mtype md = ''running''"
    by (auto simp add: calibrated_simps default_thresholds)
  with a b show ?thesis
    by (simp add: calibrated_simps(1) cv_u8_flat45 cv_u8_diff45 cv_u8_mean45)
qed

text \<open>
  C3. With a baseline stored, the confidence of a detection is
  \<^verbatim>\<open>min(movement / movement_threshold, 1.0)\<close>. For a positive threshold that is the
  smaller of the quotient and 1: of two detections under the same settings the one of
  larger magnitude has the larger or equal confidence, and the confidence is exactly 1
  once the magnitude reaches the threshold.
\<close>

theorem confidence_saturates:
  assumes "camera_settings s' = camera_settings s"
    and "last_frame s = Some p" and "cvtColor_BGR2GRAY cv frame = Inr g"
    and "absdiff cv p g = Inr d"
    and "last_frame s' = Some p'" and "cvtColor_BGR2GRAY cv frame' = Inr g'"
    and "absdiff cv p' g' = Inr d'"
  shows "\<exists>md t md' t'.
           detect_movement cv frame s = Inr (md, t) \<and>
           detect_movement cv frame' s' = Inr (md', t') \<and>
           movement_value md = Some (mean cv d) \<and>
           movement_value md' = Some (mean cv d') \<and>
           confidence md =
             py_min (np_truediv (mean cv d) (movement_threshold (camera_settings s)))
               (Finite 1) \<and>
           confidence md' =
             py_min (np_truediv (mean cv d') (movement_threshold (camera_settings s)))
               (Finite 1) \<and>
           (0 < movement_threshold (camera_settings s) \<longrightarrow>
              confidence md =
                Finite (min (mean cv d / movement_threshold (camera_settings s)) 1) \<and>
              confidence md' =
                Finite (min (mean cv d' / movement_threshold (camera_settings s)) 1) \<and>
              (mean cv d \<le> mean cv d' \<longrightarrow>
                 min (mean cv d / movement_threshold (camera_settings s)) 1
                   \<le> min (mean cv d' / movement_threshold (camera_settings s)) 1) \<and>
              (movement_threshold (camera_settings s) \<le> mean cv d \<longrightarrow>
                 confidence md = Finite 1))"
proof -
  let ?thr = "movement_threshold (camera_settings s)"
  from detect_movement_next [OF assms(2) assms(3) assms(4)]
  obtain md where
    run: "detect_movement cv frame s =
            Inr (md, s\<lparr>last_frame := Some g, movement_history := movement_history s @ [md]\<rparr>)"
    and mv: "movement_value md = Some (mean cv d)"
    and cf: "confidence md = py_min (np_truediv (mean cv d) ?thr) (Finite 1)"
    by blast
  from detect_movement_next [OF assms(5) assms(6) assms(7)] assms(1)
  obtain md' where
    run': "detect_movement cv frame' s' =
            Inr (md', s'\<lparr>last_frame := Some g', movement_history := movement_history s' @ [md']\<rparr>)"
    and mv': "movement_value md' = Some (mean cv d')"
    and cf': "confidence md' = py_min (np_truediv (mean cv d') ?thr) (Finite 1)"
    by auto
  have pos: "0 < ?thr \<longrightarrow>
      confidence md = Finite (min (mean cv d / ?thr) 1) \<and>
      confidence md' = Finite (min (mean cv d' / ?thr) 1) \<and>
      (mean cv d \<le> mean cv d' \<longrightarrow>
         min (mean cv d / ?thr) 1 \<le> min (mean cv d' / ?thr) 1) \<and>
      (?thr \<le> mean cv d \<longrightarrow> confidence md = Finite 1)"
  proof
    assume thr: "0 < ?thr"
    have c: "confidence md = Finite (min (mean cv d / ?thr) 1)"
      using cf confidence_positive_threshold [OF thr] by simp
    have c': "confidence md' = Finite (min (mean cv d' / ?thr) 1)"
      using cf' confidence_positive_threshold [OF thr] by simp
    have mono: "mean cv d \<le> mean cv d' \<longrightarrow>
        min (mean cv d / ?thr) 1 \<le> min (mean cv d' / ?thr) 1"
    proof
      assume "mean cv d \<le> mean cv d'"
      then have "mean cv d / ?thr \<le> mean cv d' / ?thr"
        using thr by (simp add: divide_right_mono)
      then show "min (mean cv d / ?thr) 1 \<le> min (mean cv d' / ?thr) 1"
        by (simp add: min_def)
    qed
    have sat: "?thr \<le> mean cv d \<longrightarrow> confidence md = Finite 1"
    proof
      assume "?thr \<le> mean cv d"
      then have "1 \<le> mean cv d / ?thr"
        using thr by (simp add: le_divide_eq)
      then show "confidence md = Finite 1"
        using c by (simp add: min_def)
    qed
    from c c' mono sat
    show "confidence md = Finite (min (mean cv d / ?thr) 1) \<and>
      confidence md' = Finite (min (mean cv d' / ?thr) 1) \<and>
      (mean cv d \<le> mean cv d' \<longrightarrow>
         min (mean cv d / ?thr) 1 \<le> min (mean cv d' / ?thr) 1) \<and>
      (?thr \<le> mean cv d \<longrightarrow> confidence md = Finite 1)"
      by blast
  qed
  from run run' mv mv' cf cf' pos show ?thesis by blast
qed

lemma detect_dim:
  "detect_movement cv_u8 [(20, 20, 20), (0, 0, 0)] calibrated =
     Inr (\<lparr>mtype = ''none'', confidence = Finite (1 / 3), movement_value = Some 10\<rparr>,
          calibrated\<lparr>last_frame := Some [20, 0],
            movement_history :=
              [\<lparr>mtype = ''none'', confidence = Finite (1 / 3), movement_value = Some 10\<rparr>]\<rparr>)"
  using detect_movement_next [OF calibrated_simps(1) cv_u8_dim cv_u8_diff_dim]
  by (auto simp add: calibrated_simps default_thresholds cv_u8_mean_dim
      py_min_def np_truediv_def)

theorem confidence_saturates_witness:
  "0 < movement_threshold (camera_settings calibrated) \<and>
   last_frame calibrated = Some [0, 0] \<and>
   cvtColor_BGR2GRAY cv_u8 [(20, 20, 20), (0, 0, 0)] = Inr [20, 0] \<and>
   absdiff cv_u8 [0, 0] [20, 0] = Inr [20, 0] \<and>
   cvtColor_BGR2GRAY cv_u8 (flat 45) = Inr [45, 45] \<and>
   absdiff cv_u8 [0, 0] [45, 45] = Inr [45, 45] \<and>
   mean cv_u8 [20, 0] \<le> mean cv_u8 [45, 45] \<and>
   movement_threshold (camera_settings calibrated) \<le> mean cv_u8 [45, 45] \<and>
   (\<exists>md t md' t'.
      detect_movement cv_u8 [(20, 20, 20), (0, 0, 0)] calibrated = Inr (md, t) \<and>
      detect_movement cv_u8 (flat 45) calibrated = Inr (md', t') \<and>
      confidence md = Finite (1 / 3) \<and> confidence md' = Finite 1)"
proof -
  have a: "0 < movement_threshold (camera_settings calibrated)"
    by (simp add: calibrated_simps default_thresholds)
  from a confidence_saturates
    [OF refl calibrated_simps(1) cv_u8_dim cv_u8_diff_dim
       calibrated_simps(1) cv_u8_flat45 cv_u8_diff45]
  have "\<exists>md t md' t'.
      detect_movement cv_u8 [(20, 20, 20), (0, 0, 0)] calibrated = Inr (md, t) \<and>
      detect_movement cv_u8 (flat 45) calibrated = Inr (md', t') \<and>
      confidence md = Finite (1 / 3) \<and> confidence md' = Finite 1"
    by (auto simp add: calibrated_simps default_thresholds cv_u8_mean_dim cv_u8_mean45)
  then show ?thesis
    by (simp add: calibrated_simps default_thresholds cv_u8_dim cv_u8_diff_dim
        cv_u8_flat45 cv_u8_diff45 cv_u8_mean_dim cv_u8_mean45)
qed

subsection \<open>The first call\<close>

lemma observed_simps:
  "last_frame observed = Some [45, 45]" "camera observed = Some ()" "is_capturing observed"
  "movement_history observed = [md_running]" "capture_count observed = 2"
  by (simp_all add: observed_def started_def init_def)

lemma captures_reach_observed:
  "capture_all cv_u8
     [(flat 0, ''20240101_120000'', ''timer''), (flat 45, ''20240101_120100'', ''manual'')]
     started = Inr observed"
  by (simp add: capture_image_def detect_movement_def started_def init_def observed_def
      md_running_def cv_u8_def bgr2gray_def absdiff_u8_def mean_u8_def flat_def
      default_settings_def py_min_def np_truediv_def Let_def)

text \<open>
  C4, as the code has it. With no baseline stored, a call whose grey conversion succeeds
  returns the type none and the confidence 0.0 and no magnitude at all (the dictionary
  has no \<^verbatim>\<open>movement_value\<close> key), stores the grey frame as the baseline and
  leaves the history and everything else as they were, for any settings.
\<close>

theorem first_call_sets_baseline:
  "last_frame s = None \<Longrightarrow> cvtColor_BGR2GRAY cv frame = Inr gray \<Longrightarrow>
     detect_movement cv frame s =
       Inr (\<lparr>mtype = ''none'', confidence = Finite 0, movement_value = None\<rparr>,
            s\<lparr>last_frame := Some gray\<rparr>)"
  by (simp add: detect_movement_def)

theorem first_call_sets_baseline_witness:
  "last_frame started = None \<and> cvtColor_BGR2GRAY cv_u8 (flat 0) = Inr [0, 0] \<and>
   detect_movement cv_u8 (flat 0) started =
     Inr (\<lparr>mtype = ''none'', confidence = Finite 0, movement_value = None\<rparr>,
          started\<lparr>last_frame := Some [0, 0]\<rparr>)"
  using first_call_sets_baseline [OF started_simps(1) cv_u8_flat0]
  by (simp add: started_simps(1) cv_u8_flat0)

text \<open>
  C4 as the specification words it does not hold: the first call on the started tracker
  reports no magnitude, where the specification has a magnitude of 0.0.
\<close>

theorem first_call_reports_no_magnitude:
  "detect_movement cv_u8 (flat 0) started =
     Inr (\<lparr>mtype = ''none'', confidence = Finite 0, movement_value = None\<rparr>, calibrated) \<and>
   movement_value \<lparr>mtype = ''none'', confidence = Finite 0, movement_value = None\<rparr>
     \<noteq> Some 0"
  by (simp add: detect_calibrates)

subsection \<open>What a call changes\<close>

lemma detect_movement_cases:
  assumes "detect_movement cv frame s = Inr (md, s')"
  shows "\<exists>gray. cvtColor_BGR2GRAY cv frame = Inr gray \<and>
           s' = s\<lparr>last_frame := Some gray,
                   movement_history :=
                     (if last_frame s = None then movement_history s
                      else movement_history s @ [md])\<rparr>"
proof (cases "last_frame s")
  case None
  with assms show ?thesis
    by (auto simp add: detect_movement_def split: sum.splits)
next
  case (Some prev)
  with assms show ?thesis
    by (auto simp add: detect_movement_def Let_def split: sum.splits)
qed

lemma detect_movement_reads:
  assumes "last_frame t = last_frame s" and "camera_settings t = camera_settings s"
  shows "map_sum id fst (detect_movement cv frame t) =
         map_sum id fst (detect_movement cv frame s)"
  using assms
  by (simp add: detect_movement_def Let_def split: option.splits sum.splits)

text \<open>
  C8, as the code has it. A call of the detector that returns changes two attributes
  and no other: the baseline becomes the grey image of the frame, and the history gains
  the returned dictionary when a baseline was stored (it is unchanged on the first
  call). What the call returns is a function of the frame, the stored baseline and the
  settings alone.
\<close>

theorem detect_movement_touches_baseline_and_history:
  "(detect_movement cv frame s = Inr (md, s') \<longrightarrow>
      (\<exists>gray. cvtColor_BGR2GRAY cv frame = Inr gray \<and>
         s' = s\<lparr>last_frame := Some gray,
                 movement_history :=
                   (if last_frame s = None then movement_history s
                    else movement_history s @ [md])\<rparr>)) \<and>
   (last_frame t = last_frame s \<and> camera_settings t = camera_settings s \<longrightarrow>
      map_sum id fst (detect_movement cv frame t) =
      map_sum id fst (detect_movement cv frame s))"
  using detect_movement_cases [of cv frame s md s'] detect_movement_reads [of t s cv frame]
  by blast

theorem detect_movement_touches_baseline_and_history_witness:
  "detect_movement cv_u8 (flat 45) calibrated =
     Inr (md_running,
          calibrated\<lparr>last_frame := Some [45, 45], movement_history := [md_running]\<rparr>) \<and>
   cvtColor_BGR2GRAY cv_u8 (flat 45) = Inr [45, 45] \<and>
   last_frame (calibrated\<lparr>capture_count := 1\<rparr>) = last_frame calibrated \<and>
   camera_settings (calibrated\<lparr>capture_count := 1\<rparr>) = camera_settings calibrated \<and>
   map_sum id fst (detect_movement cv_u8 (flat 45) (calibrated\<lparr>capture_count := 1\<rparr>)) =
     Inr md_running"
  using detect_movement_touches_baseline_and_history
    [where cv = cv_u8 and frame = "flat 45" and s = calibrated and md = md_running
       and s' = "calibrated\<lparr>last_frame := Some [45, 45], movement_history := [md_running]\<rparr>"
       and t = "calibrated\<lparr>capture_count := 1\<rparr>"]
  by (simp add: detect_running cv_u8_flat45)

text \<open>
  C8 as the specification words it does not hold: a detection on the calibrated tracker replaces the baseline and
  extends the history.
\<close>

theorem detect_movement_changes_state:
  "detect_movement cv_u8 (flat 45) calibrated =
     Inr (md_running,
          calibrated\<lparr>last_frame := Some [45, 45], movement_history := [md_running]\<rparr>) \<and>
   last_frame (calibrated\<lparr>last_frame := Some [45, 45], movement_history := [md_running]\<rparr>)
     \<noteq> last_frame calibrated \<and>
   movement_history
       (calibrated\<lparr>last_frame := Some [45, 45], movement_history := [md_running]\<rparr>)
     \<noteq> movement_history calibrated"
  by (simp add: detect_running calibrated_simps)

section \<open>Captures\<close>

text \<open>
  C5. When the camera is there and capturing and the frame pull fails, the capture
  returns a dictionary with the status error and the reason
  \<^verbatim>\<open>"Failed to capture frame"\<close> and the tracker is unchanged: the baseline, the
  history and the capture count are what they were.
\<close>

theorem failed_pull_changes_nothing:
  "camera s \<noteq> None \<Longrightarrow> is_capturing s \<Longrightarrow>
     \<exists>r. capture_image cv None ts trigger s = Inr (r, s) \<and>
         cr_status r = ''error'' \<and> cr_message r = ''Failed to capture frame''"
  by (simp add: capture_image_def)

theorem failed_pull_changes_nothing_witness:
  "camera observed \<noteq> None \<and> is_capturing observed \<and>
   last_frame observed = Some [45, 45] \<and> movement_history observed = [md_running] \<and>
   capture_count observed = 2 \<and>
   (\<exists>r. capture_image cv_u8 None ''20240101_120200'' ''timer'' observed = Inr (r, observed) \<and>
        cr_status r = ''error'' \<and> cr_message r = ''Failed to capture frame'')"
proof -
  have a: "camera observed \<noteq> None" by (simp add: observed_simps)
  from failed_pull_changes_nothing
      [OF a observed_simps(3), where cv = cv_u8 and ts = "''20240101_120200''"
         and trigger = "''timer''"]
  show ?thesis by (auto simp add: observed_simps)
qed

text \<open>
  C9. When the camera has not been started or capturing is off, the capture returns a
  dictionary with the status error and the tracker is unchanged, whatever the camera
  would have delivered.
\<close>

theorem capture_without_camera_changes_nothing:
  "camera s = None \<or> \<not> is_capturing s \<Longrightarrow>
     \<exists>r. capture_image cv rd ts trigger s = Inr (r, s) \<and>
         cr_status r = ''error'' \<and>
         cr_message r = ''Camera not initialized or not capturing''"
  by (simp add: capture_image_def)

theorem capture_without_camera_changes_nothing_witness:
  "camera (init None :: (unit, gray_image) BeltTracking) = None \<and>
   (\<exists>r. capture_image cv_u8 (Some (flat 45)) ''20240101_120000'' ''manual''
          (init None :: (unit, gray_image) BeltTracking) = Inr (r, init None) \<and>
        cr_status r = ''error'') \<and>
   camera (observed\<lparr>is_capturing := False\<rparr>) = Some () \<and>
   is_capturing (observed\<lparr>is_capturing := False\<rparr>) = False \<and>
   (\<exists>r. capture_image cv_u8 (Some (flat 0)) ''20240101_120300'' ''manual''
          (observed\<lparr>is_capturing := False\<rparr>) =
          Inr (r, observed\<lparr>is_capturing := False\<rparr>) \<and>
        cr_status r = ''error'')"
proof -
  have a: "camera (init None :: (unit, gray_image) BeltTracking) = None
             \<or> \<not> is_capturing (init None :: (unit, gray_image) BeltTracking)"
    by (simp add: init_def)
  have b: "camera (observed\<lparr>is_capturing := False\<rparr>) = None
             \<or> \<not> is_capturing (observed\<lparr>is_capturing := False\<rparr>)"
    by simp
  from capture_without_camera_changes_nothing
      [OF a, where cv = cv_u8 and rd = "Some (flat 45)" and ts = "''20240101_120000''"
         and trigger = "''manual''"]
    capture_without_camera_changes_nothing
      [OF b, where cv = cv_u8 and rd = "Some (flat 0)" and ts = "''20240101_120300''"
         and trigger = "''manual''"]
  show ?thesis by (auto simp add: init_def observed_simps)
qed

subsection \<open>The history\<close>

lemma capture_image_appends:
  assumes "capture_image cv rd ts trigger s = Inr (r, s')"
  shows "\<exists>new. movement_history s' = movement_history s @ new \<and> length new \<le> 1"
proof (cases "camera s = None \<or> \<not> is_capturing s")
  case True
  with assms show ?thesis by (simp add: capture_image_def)
next
  case False
  show ?thesis
  proof (cases rd)
    case None
    with False assms show ?thesis by (auto simp add: capture_image_def)
  next
    case (Some frame)
    with False assms obtain md s1 where
      d: "detect_movement cv frame s = Inr (md, s1)"
      and s': "s' = s1\<lparr>capture_count := capture_count s1 + 1\<rparr>"
      by (auto simp add: capture_image_def Let_def split: sum.splits)
    from detect_movement_cases [OF d] s'
    have "movement_history s' =
            (if last_frame s = None then movement_history s else movement_history s @ [md])"
      by auto
    then show ?thesis by (cases "last_frame s") auto
  qed
qed

lemma capture_image_with_baseline:
  assumes "camera s \<noteq> None" and "is_capturing s" and "last_frame s \<noteq> None"
    and "capture_image cv (Some frame) ts trigger s = Inr (r, s')"
  shows "camera s' \<noteq> None \<and> is_capturing s' \<and> last_frame s' \<noteq> None \<and>
         (\<exists>md. movement_history s' = movement_history s @ [md])"
proof -
  from assms obtain md s1 where
    d: "detect_movement cv frame s = Inr (md, s1)"
    and s': "s' = s1\<lparr>capture_count := capture_count s1 + 1\<rparr>"
    by (auto simp add: capture_image_def Let_def split: sum.splits)
  from detect_movement_cases [OF d] s' assms(1) assms(2) assms(3)
  show ?thesis by auto
qed

lemma capture_all_with_baseline:
  "camera s \<noteq> None \<Longrightarrow> is_capturing s \<Longrightarrow> last_frame s \<noteq> None \<Longrightarrow>
   capture_all cv xs s = Inr t \<Longrightarrow>
     \<exists>new. movement_history t = movement_history s @ new \<and> length new = length xs"
proof (induction xs arbitrary: s)
  case Nil
  then show ?case by simp
next
  case (Cons x xs)
  obtain frame ts trigger where x: "x = (frame, ts, trigger)"
    by (cases x) auto
  from Cons.prems(4) x obtain r s1 where
    c: "capture_image cv (Some frame) ts trigger s = Inr (r, s1)"
    and rest: "capture_all cv xs s1 = Inr t"
    by (auto split: sum.splits)
  from capture_image_with_baseline [OF Cons.prems(1) Cons.prems(2) Cons.prems(3) c]
  obtain md where
    k: "camera s1 \<noteq> None" "is_capturing s1" "last_frame s1 \<noteq> None"
    and h: "movement_history s1 = movement_history s @ [md]"
    by blast
  from Cons.IH [OF k rest] obtain new where
    "movement_history t = movement_history s1 @ new" and "length new = length xs"
    by blast
  with h have "movement_history t = movement_history s @ (md # new) \<and>
               length (md # new) = length (x # xs)"
    by simp
  then show ?case by blast
qed

lemma recent_movements_last_ten:
  "recent_movements (get_camera_stats s) =
     drop (length (movement_history s) - 10) (movement_history s) \<and>
   length (recent_movements (get_camera_stats s)) \<le> 10"
  by (auto simp add: get_camera_stats_def)

text \<open>
  C2, as the code has it. The stored history is never cut: a capture keeps every entry
  and appends at most one, and a run of successful captures from a tracker with a
  baseline appends exactly one entry per capture. The cap of ten is on the
  \<^verbatim>\<open>recent_movements\<close> of the camera statistics alone, which are the last ten
  entries of the history in their order, so that the oldest entries are the ones left
  out.
\<close>

theorem history_grows_view_is_capped:
  "(capture_image cv rd ts trigger s = Inr (r, s') \<longrightarrow>
      (\<exists>new. movement_history s' = movement_history s @ new \<and> length new \<le> 1)) \<and>
   (camera s \<noteq> None \<and> is_capturing s \<and> last_frame s \<noteq> None \<and>
    capture_all cv xs s = Inr t \<longrightarrow>
      (\<exists>new. movement_history t = movement_history s @ new \<and> length new = length xs)) \<and>
   recent_movements (get_camera_stats s) =
     drop (length (movement_history s) - 10) (movement_history s) \<and>
   length (recent_movements (get_camera_stats s)) \<le> 10"
  using capture_image_appends [of cv rd ts trigger s r s']
    capture_all_with_baseline [of s cv xs t]
    recent_movements_last_ten [of s]
  by blast

lemmas eval_defs =
  capture_image_def detect_movement_def started_def init_def
  cv_u8_def bgr2gray_def absdiff_u8_def mean_u8_def flat_def
  default_settings_def py_min_def np_truediv_def Let_def

lemma twelve_captures_run:
  "capture_all cv_u8 twelve_captures started = Inr after_twelve"
  by (simp add: twelve_captures_def after_twelve_def reading_def eval_defs)

lemma eleven_captures_run:
  "capture_all cv_u8 (tl twelve_captures) (calibrated\<lparr>capture_count := 1\<rparr>) =
     Inr after_twelve"
  by (simp add: twelve_captures_def after_twelve_def reading_def calibrated_def eval_defs)

lemma second_capture_run:
  "capture_image cv_u8 (Some (flat 1)) ''20240101_120100'' ''timer''
     (calibrated\<lparr>capture_count := 1\<rparr>) =
   Inr (CaptureSuccess ''captures/capture_20240101_120100_timer.jpg'' (reading 1) ''timer''
          ''20240101_120100'',
        calibrated\<lparr>last_frame := Some [1, 1], movement_history := [reading 1],
          capture_count := 2\<rparr>)"
  by (simp add: reading_def calibrated_def eval_defs)

text \<open>
  C2 as the specification words it does not hold: after twelve successful captures the
  history holds eleven entries.
\<close>

theorem history_exceeds_ten:
  "map_sum id (length \<circ> movement_history) (capture_all cv_u8 twelve_captures started) =
     Inr 11 \<and>
   \<not> (11 :: nat) \<le> 10"
  by (simp add: twelve_captures_run after_twelve_def)

theorem history_grows_view_is_capped_witness:
  "capture_image cv_u8 (Some (flat 1)) ''20240101_120100'' ''timer''
     (calibrated\<lparr>capture_count := 1\<rparr>) =
   Inr (CaptureSuccess ''captures/capture_20240101_120100_timer.jpg'' (reading 1) ''timer''
          ''20240101_120100'',
        calibrated\<lparr>last_frame := Some [1, 1], movement_history := [reading 1],
          capture_count := 2\<rparr>) \<and>
   camera (calibrated\<lparr>capture_count := 1\<rparr>) \<noteq> None \<and>
   is_capturing (calibrated\<lparr>capture_count := 1\<rparr>) \<and>
   last_frame (calibrated\<lparr>capture_count := 1\<rparr>) \<noteq> None \<and>
   capture_all cv_u8 (tl twelve_captures) (calibrated\<lparr>capture_count := 1\<rparr>) =
     Inr after_twelve \<and>
   (\<exists>new. movement_history after_twelve =
            movement_history (calibrated\<lparr>capture_count := 1\<rparr>) @ new \<and>
          length new = length (tl twelve_captures)) \<and>
   length (movement_history after_twelve) = 11 \<and>
   recent_movements (get_camera_stats after_twelve) =
     [reading 2, reading 3, reading 4, reading 5, reading 6, reading 7, reading 8,
      reading 9, reading 10, reading 11] \<and>
   length (recent_movements (get_camera_stats after_twelve)) \<le> 10"
proof -
  let ?s = "calibrated\<lparr>capture_count := 1\<rparr>"
  have pre: "camera ?s \<noteq> None \<and> is_capturing ?s \<and> last_frame ?s \<noteq> None \<and>
             capture_all cv_u8 (tl twelve_captures) ?s = Inr after_twelve"
    by (simp add: calibrated_simps eleven_captures_run)
  have run: "\<exists>new. movement_history after_twelve = movement_history ?s @ new \<and>
               length new = length (tl twelve_captures)"
    by (rule history_grows_view_is_capped [THEN conjunct2, THEN conjunct1, THEN mp, OF pre])
  have capped: "length (recent_movements (get_camera_stats after_twelve)) \<le> 10"
    by (rule history_grows_view_is_capped [THEN conjunct2, THEN conjunct2, THEN conjunct2])
  have view: "recent_movements (get_camera_stats after_twelve) =
     [reading 2, reading 3, reading 4, reading 5, reading 6, reading 7, reading 8,
      reading 9, reading 10, reading 11]"
    by (simp add: get_camera_stats_def after_twelve_def)
  have stored: "length (movement_history after_twelve) = 11"
    by (simp add: after_twelve_def)
  from pre run capped view stored second_capture_run show ?thesis
    by blast
qed

end
